theory Spec2Isabelle
  imports Main
begin

section \<open>The verification script \<open>verification/verify_notes_load.py\<close>\<close>

text \<open>
  The script is a straight line of calls into a browser-automation library, the clock
  and the console. None of these is part of the script, so the model takes the answer of
  every external call from a \<open>world\<close>: a call either raises an exception (\<open>Inl\<close>)
  or returns (\<open>Inr\<close>). Each call site of the script is executed at most once in a
  run, so giving one answer per call is no loss of generality.
\<close>

subsection \<open>Data\<close>

text \<open>An exception raised by an external call, with its message.\<close>

datatype exn = Raised string

text \<open>The handles the library hands out: the driver, the browser and the page.\<close>

datatype playwright = Playwright
datatype browser = Browser
datatype page = Page

text \<open>What \<open>page.get_by_text(t)\<close> builds: a description of elements, nothing is queried yet.\<close>

datatype locator = ByText string

text \<open>The calls the script makes to the outside, in the order it makes them.\<close>

datatype action =
    Start
  | Launch bool
  | NewPage
  | Goto string
  | Sleep int
  | Screenshot string
  | IsVisible locator
  | Print string
  | Close
  | Stop

text \<open>
  The effects of a run: \<open>trace\<close> lists every external call that was made (also one that
  raised), \<open>files\<close> the paths written to disk and \<open>stdout\<close> the lines printed.
\<close>

record state =
  trace :: "action list"
  files :: "string list"
  stdout :: "string list"

definition init :: state where
  "init = \<lparr>trace = [], files = [], stdout = []\<rparr>"

text \<open>The answers of the outside world, one field per external call of the script.\<close>

record world =
  start_r :: "exn + playwright"
  launch_r :: "bool \<Rightarrow> exn + browser"
  new_page_r :: "exn + page"
  goto_r :: "string \<Rightarrow> exn + unit"
  sleep_r :: "int \<Rightarrow> exn + unit"
  screenshot_r :: "string \<Rightarrow> exn + unit"
  is_visible_r :: "locator \<Rightarrow> exn + bool"
  print_r :: "string \<Rightarrow> exn + unit"
  close_r :: "exn + unit"
  stop_r :: "exn + unit"

subsection \<open>Sequencing, exceptions and \<open>finally\<close>\<close>

type_synonym 'a prog = "state \<Rightarrow> (exn + 'a) \<times> state"

text \<open>Statement after statement: an exception of the first skips the second.\<close>

definition then_run :: "'a prog \<Rightarrow> ('a \<Rightarrow> 'b prog) \<Rightarrow> 'b prog" where
  "then_run m f s = (case m s of
       (Inl e, s') \<Rightarrow> (Inl e, s')
     | (Inr x, s') \<Rightarrow> f x s')"

text \<open>
  Python's \<open>try: body finally: fin\<close>: \<open>fin\<close> runs whatever \<open>body\<close> did; an exception of
  \<open>fin\<close> replaces the outcome of \<open>body\<close>, otherwise the outcome of \<open>body\<close> (its value or
  its exception, re-raised) stands.
\<close>

definition try_finally :: "'a prog \<Rightarrow> unit prog \<Rightarrow> 'a prog" where
  "try_finally body fin s = (case body s of
       (r, s1) \<Rightarrow> (case fin s1 of
           (Inl e, s2) \<Rightarrow> (Inl e, s2)
         | (Inr u, s2) \<Rightarrow> (r, s2)))"

text \<open>An external call: it is recorded, and the world decides how it ends.\<close>

definition extern :: "action \<Rightarrow> (exn + 'a) \<Rightarrow> 'a prog" where
  "extern a r s = (r, s\<lparr>trace := trace s @ [a]\<rparr>)"

subsection \<open>The external calls\<close>

definition start :: "world \<Rightarrow> playwright prog" where
  "start w = extern Start (start_r w)"

definition stop :: "world \<Rightarrow> playwright \<Rightarrow> unit prog" where
  "stop w p = extern Stop (stop_r w)"

definition launch :: "world \<Rightarrow> playwright \<Rightarrow> bool \<Rightarrow> browser prog" where
  "launch w p headless = extern (Launch headless) (launch_r w headless)"

definition new_page :: "world \<Rightarrow> browser \<Rightarrow> page prog" where
  "new_page w b = extern NewPage (new_page_r w)"

definition close :: "world \<Rightarrow> browser \<Rightarrow> unit prog" where
  "close w b = extern Close (close_r w)"

definition goto :: "world \<Rightarrow> page \<Rightarrow> string \<Rightarrow> unit prog" where
  "goto w pg url = extern (Goto url) (goto_r w url)"

definition sleep :: "world \<Rightarrow> int \<Rightarrow> unit prog" where
  "sleep w secs = extern (Sleep secs) (sleep_r w secs)"

text \<open>A screenshot that returns has written its file; one that raises has written nothing.\<close>

definition screenshot :: "world \<Rightarrow> page \<Rightarrow> string \<Rightarrow> unit prog" where
  "screenshot w pg path s = (case screenshot_r w path of
       Inl e \<Rightarrow> (Inl e, s\<lparr>trace := trace s @ [Screenshot path]\<rparr>)
     | Inr u \<Rightarrow> (Inr u, s\<lparr>trace := trace s @ [Screenshot path], files := files s @ [path]\<rparr>))"

definition get_by_text :: "page \<Rightarrow> string \<Rightarrow> locator" where
  "get_by_text pg t = ByText t"

definition is_visible :: "world \<Rightarrow> locator \<Rightarrow> bool prog" where
  "is_visible w loc = extern (IsVisible loc) (is_visible_r w loc)"

text \<open>
  \<open>print\<close> writes one line to the console. It raises when the console cannot be written
  to (standard output closed, or a pipe whose reader is gone); then the line has not been
  printed.
\<close>

definition print :: "world \<Rightarrow> string \<Rightarrow> unit prog" where
  "print w msg s = (case print_r w msg of
       Inl e \<Rightarrow> (Inl e, s\<lparr>trace := trace s @ [Print msg]\<rparr>)
     | Inr u \<Rightarrow> (Inr u, s\<lparr>trace := trace s @ [Print msg], stdout := stdout s @ [msg]\<rparr>))"

subsection \<open>The script\<close>

text \<open>
  \<^verbatim>\<open>
  def verify_notes_load(page: Page):
      page.goto("http://localhost:5173")
      time.sleep(2)
      page.screenshot(path="/home/jules/verification/initial_load.png")
      if page.get_by_text("Welcome to Pinn").is_visible():
          print("Onboarding visible")
          pass
      else:
          print("Not on onboarding?")
  \<close>
\<close>

definition verify_notes_load :: "world \<Rightarrow> page \<Rightarrow> unit prog" where
  "verify_notes_load w pg =
     then_run (goto w pg ''http://localhost:5173'') (\<lambda>_.
     then_run (sleep w 2) (\<lambda>_.
     then_run (screenshot w pg ''/home/jules/verification/initial_load.png'') (\<lambda>_.
     then_run (is_visible w (get_by_text pg ''Welcome to Pinn'')) (\<lambda>visible.
       if visible then print w ''Onboarding visible''
       else print w ''Not on onboarding?''))))"

text \<open>
  \<^verbatim>\<open>
  if __name__ == "__main__":
      with sync_playwright() as p:
          browser = p.chromium.launch(headless=True)
          page = browser.new_page()
          try:
              verify_notes_load(page)
          finally:
              browser.close()
  \<close>
  The \<open>with\<close> block starts the driver and stops it on every way out of its body; the
  driver's exit handler does not swallow exceptions, so the block is a \<open>try ... finally\<close>
  around the body.
\<close>

definition main :: "world \<Rightarrow> unit prog" where
  "main w =
     then_run (start w) (\<lambda>p.
       try_finally
         (then_run (launch w p True) (\<lambda>browser.
          then_run (new_page w browser) (\<lambda>page.
            try_finally (verify_notes_load w page) (close w browser))))
         (stop w p))"

subsection \<open>The application behind the URL\<close>

text \<open>
  Modelled from the spec: the web application served at \<open>http://localhost:5173\<close> is not
  under src/; only this script is. The spec describes the part of it the script observes:
  onboarding is the first-run screen shown before the application's configuration, a key of
  the client-side storage, has been set, and a freshly created browsing context has empty
  client-side storage. The name of the key is not given, so it is a parameter.
\<close>

type_synonym local_storage = "string \<rightharpoonup> string"

text \<open>
  Modelled from the spec: the client-side storage of a freshly created browsing context
  (the application that fills it is not under src/); it is empty.
\<close>

definition fresh_context :: local_storage where
  "fresh_context = Map.empty"

text \<open>
  Modelled from the spec: the application's rule for its first-run screen (the application
  is not under src/); onboarding is shown as long as the configuration key is not set.
\<close>

definition onboarding_shown :: "string \<Rightarrow> local_storage \<Rightarrow> bool" where
  "onboarding_shown key st = (st key = None)"

text \<open>
  Modelled from the spec: what the served page answers to a visibility query (the page is
  not under src/); the onboarding screen is the one that carries the text the script
  looks for.
\<close>

definition app_is_visible :: "string \<Rightarrow> local_storage \<Rightarrow> locator \<Rightarrow> exn + bool" where
  "app_is_visible key st loc = (case loc of
       ByText t \<Rightarrow> Inr (t = ''Welcome to Pinn'' \<and> onboarding_shown key st))"

subsection \<open>Some worlds\<close>

text \<open>The server answers and every call returns; the text is visible or not.\<close>

definition served :: "bool \<Rightarrow> world" where
  "served b = \<lparr>start_r = Inr Playwright, launch_r = (\<lambda>_. Inr Browser),
     new_page_r = Inr Page, goto_r = (\<lambda>_. Inr ()), sleep_r = (\<lambda>_. Inr ()),
     screenshot_r = (\<lambda>_. Inr ()), is_visible_r = (\<lambda>_. Inr b),
     print_r = (\<lambda>_. Inr ()), close_r = Inr (), stop_r = Inr ()\<rparr>"

text \<open>Nothing listens on the port: the navigation raises.\<close>

definition unreachable :: world where
  "unreachable = (served True)\<lparr>goto_r := (\<lambda>_. Inl (Raised ''net::ERR_CONNECTION_REFUSED''))\<rparr>"

text \<open>The user interrupts the two-second wait.\<close>

definition interrupted :: world where
  "interrupted = (served True)\<lparr>sleep_r := (\<lambda>_. Inl (Raised ''KeyboardInterrupt''))\<rparr>"

text \<open>The screenshot cannot be taken.\<close>

definition shot_fails :: world where
  "shot_fails = (served True)\<lparr>screenshot_r := (\<lambda>_. Inl (Raised ''Page.screenshot: Timeout''))\<rparr>"

text \<open>The visibility query itself raises.\<close>

definition check_fails :: world where
  "check_fails = (served True)\<lparr>is_visible_r :=
     (\<lambda>_. Inl (Raised ''Locator.is_visible: strict mode violation''))\<rparr>"

text \<open>Standard output is closed: the page is fine, the \<open>print\<close> call raises.\<close>

definition stdout_closed :: "bool \<Rightarrow> world" where
  "stdout_closed b = (served b)\<lparr>print_r :=
     (\<lambda>_. Inl (Raised ''ValueError: I/O operation on closed file''))\<rparr>"

text \<open>Nothing listens on the port, and closing the browser raises as well.\<close>

definition close_fails :: world where
  "close_fails = unreachable\<lparr>close_r := Inl (Raised ''Browser.close: Connection closed'')\<rparr>"

text \<open>The browser starts, but no page can be opened.\<close>

definition no_page :: world where
  "no_page = (served True)\<lparr>new_page_r := Inl (Raised ''Browser.new_page: Target closed'')\<rparr>"

text \<open>The application of the spec, opened with the given client-side storage.\<close>

definition app_world :: "string \<Rightarrow> local_storage \<Rightarrow> world" where
  "app_world key st = (served True)\<lparr>is_visible_r := app_is_visible key st\<rparr>"

section \<open>Properties\<close>

subsection \<open>Auxiliary facts\<close>

lemmas prims = then_run_def try_finally_def extern_def goto_def sleep_def screenshot_def
  get_by_text_def is_visible_def print_def start_def stop_def launch_def new_page_def close_def

lemma verify_frame:
  "fst (verify_notes_load w pg s) = fst (verify_notes_load w pg init) \<and>
   trace (snd (verify_notes_load w pg s)) = trace s @ trace (snd (verify_notes_load w pg init)) \<and>
   files (snd (verify_notes_load w pg s)) = files s @ files (snd (verify_notes_load w pg init)) \<and>
   stdout (snd (verify_notes_load w pg s)) = stdout s @ stdout (snd (verify_notes_load w pg init))"
  by (simp add: verify_notes_load_def prims init_def split: sum.splits)

lemma verify_ok:
  assumes "goto_r w ''http://localhost:5173'' = Inr ()"
    and "sleep_r w 2 = Inr ()"
    and "screenshot_r w ''/home/jules/verification/initial_load.png'' = Inr ()"
    and "is_visible_r w (ByText ''Welcome to Pinn'') = Inr b"
    and "print_r w (if b then ''Onboarding visible'' else ''Not on onboarding?'') = Inr ()"
  shows "verify_notes_load w pg s =
    (Inr (), s\<lparr>trace := trace s @ [Goto ''http://localhost:5173'', Sleep 2,
         Screenshot ''/home/jules/verification/initial_load.png'',
         IsVisible (ByText ''Welcome to Pinn''),
         Print (if b then ''Onboarding visible'' else ''Not on onboarding?'')],
       files := files s @ [''/home/jules/verification/initial_load.png''],
       stdout := stdout s @ [if b then ''Onboarding visible'' else ''Not on onboarding?'']\<rparr>)"
  using assms by (cases b) (simp_all add: verify_notes_load_def prims)

lemma verify_print_raises:
  assumes "goto_r w ''http://localhost:5173'' = Inr ()"
    and "sleep_r w 2 = Inr ()"
    and "screenshot_r w ''/home/jules/verification/initial_load.png'' = Inr ()"
    and "is_visible_r w (ByText ''Welcome to Pinn'') = Inr b"
    and "print_r w (if b then ''Onboarding visible'' else ''Not on onboarding?'') = Inl e"
  shows "verify_notes_load w pg s =
    (Inl e, s\<lparr>trace := trace s @ [Goto ''http://localhost:5173'', Sleep 2,
         Screenshot ''/home/jules/verification/initial_load.png'',
         IsVisible (ByText ''Welcome to Pinn''),
         Print (if b then ''Onboarding visible'' else ''Not on onboarding?'')],
       files := files s @ [''/home/jules/verification/initial_load.png'']\<rparr>)"
  using assms by (cases b) (simp_all add: verify_notes_load_def prims)

lemma main_run:
  assumes "start_r w = Inr p" and "launch_r w True = Inr b" and "new_page_r w = Inr pg"
  shows "main w s =
    (case verify_notes_load w pg (s\<lparr>trace := trace s @ [Start, Launch True, NewPage]\<rparr>) of
       (r, s1) \<Rightarrow>
         (case close_r w of
            Inl e \<Rightarrow> (case stop_r w of Inl e' \<Rightarrow> Inl e' | Inr _ \<Rightarrow> Inl e)
          | Inr _ \<Rightarrow> (case stop_r w of Inl e' \<Rightarrow> Inl e' | Inr _ \<Rightarrow> r),
          s1\<lparr>trace := trace s1 @ [Close, Stop]\<rparr>))"
  using assms
  by (simp add: main_def start_def stop_def launch_def new_page_def close_def then_run_def
      try_finally_def extern_def split: prod.splits sum.splits)

lemma main_effects:
  assumes "start_r w = Inr p" and "launch_r w True = Inr b" and "new_page_r w = Inr pg"
  shows "trace (snd (main w init)) =
           [Start, Launch True, NewPage] @ trace (snd (verify_notes_load w pg init)) @ [Close, Stop]"
    and "files (snd (main w init)) = files (snd (verify_notes_load w pg init))"
    and "stdout (snd (main w init)) = stdout (snd (verify_notes_load w pg init))"
proof -
  define s0 where "s0 = init\<lparr>trace := trace init @ [Start, Launch True, NewPage]\<rparr>"
  obtain r s1 where v: "verify_notes_load w pg s0 = (r, s1)"
    by (cases "verify_notes_load w pg s0")
  have m: "snd (main w init) = s1\<lparr>trace := trace s1 @ [Close, Stop]\<rparr>"
    using v by (simp add: main_run [OF assms] s0_def)
  have s0: "trace s0 = [Start, Launch True, NewPage]" "files s0 = []" "stdout s0 = []"
    by (simp_all add: s0_def init_def)
  have f: "trace s1 = trace s0 @ trace (snd (verify_notes_load w pg init))"
      "files s1 = files s0 @ files (snd (verify_notes_load w pg init))"
      "stdout s1 = stdout s0 @ stdout (snd (verify_notes_load w pg init))"
    using verify_frame [of w pg s0] v by simp_all
  show "trace (snd (main w init)) =
           [Start, Launch True, NewPage] @ trace (snd (verify_notes_load w pg init)) @ [Close, Stop]"
    by (simp add: m f s0)
  show "files (snd (main w init)) = files (snd (verify_notes_load w pg init))"
    by (simp add: m f s0)
  show "stdout (snd (main w init)) = stdout (snd (verify_notes_load w pg init))"
    by (simp add: m f s0)
qed

lemma main_result:
  assumes "start_r w = Inr p" and "launch_r w True = Inr b" and "new_page_r w = Inr pg"
  shows "fst (main w init) =
         (case close_r w of
            Inl e \<Rightarrow> (case stop_r w of Inl e' \<Rightarrow> Inl e' | Inr _ \<Rightarrow> Inl e)
          | Inr _ \<Rightarrow> (case stop_r w of Inl e' \<Rightarrow> Inl e' | Inr _ \<Rightarrow> fst (verify_notes_load w pg init)))"
proof -
  define s0 where "s0 = init\<lparr>trace := trace init @ [Start, Launch True, NewPage]\<rparr>"
  obtain r s1 where v: "verify_notes_load w pg s0 = (r, s1)"
    by (cases "verify_notes_load w pg s0")
  have "r = fst (verify_notes_load w pg init)"
    using verify_frame [of w pg s0] v by simp
  then show ?thesis
    using v by (simp add: main_run [OF assms] s0_def split: sum.splits)
qed

lemma verify_no_close: "Close \<notin> set (trace (snd (verify_notes_load w pg init)))"
  by (simp add: verify_notes_load_def prims init_def split: sum.splits)

lemma verify_files:
  "set (files (snd (verify_notes_load w pg init)))
     \<subseteq> {''/home/jules/verification/initial_load.png''}
   \<and> length (files (snd (verify_notes_load w pg init))) \<le> 1"
  by (simp add: verify_notes_load_def prims init_def split: sum.splits)

text \<open>The answers of the world in which everything works.\<close>

lemma served_simps:
  "start_r (served b) = Inr Playwright" "launch_r (served b) h = Inr Browser"
  "new_page_r (served b) = Inr Page" "goto_r (served b) u = Inr ()"
  "sleep_r (served b) n = Inr ()" "screenshot_r (served b) f = Inr ()"
  "is_visible_r (served b) l = Inr b" "print_r (served b) m = Inr ()"
  "close_r (served b) = Inr ()" "stop_r (served b) = Inr ()"
  by (simp_all add: served_def)

lemma verify_reaches_print:
  assumes "goto_r w ''http://localhost:5173'' = Inr ()"
    and "sleep_r w 2 = Inr ()"
    and "screenshot_r w ''/home/jules/verification/initial_load.png'' = Inr ()"
    and "is_visible_r w (ByText ''Welcome to Pinn'') = Inr b"
  shows "trace (snd (verify_notes_load w pg s)) =
           trace s @ [Goto ''http://localhost:5173'', Sleep 2,
             Screenshot ''/home/jules/verification/initial_load.png'',
             IsVisible (ByText ''Welcome to Pinn''),
             Print (if b then ''Onboarding visible'' else ''Not on onboarding?'')]
       \<and> files (snd (verify_notes_load w pg s))
           = files s @ [''/home/jules/verification/initial_load.png'']"
proof (cases "print_r w (if b then ''Onboarding visible'' else ''Not on onboarding?'')")
  case (Inl e)
  show ?thesis
    by (simp add: verify_print_raises [OF assms Inl])
next
  case (Inr u)
  then have "print_r w (if b then ''Onboarding visible'' else ''Not on onboarding?'') = Inr ()"
    by simp
  then show ?thesis
    by (simp add: verify_ok [OF assms])
qed

subsection \<open>The claims\<close>

text \<open>
  Claim C1. In a run of \<open>verify_notes_load\<close> in which no step raises, the calls made are
  exactly: navigate to \<open>http://localhost:5173\<close>, sleep two seconds, write a screenshot to
  \<open>/home/jules/verification/initial_load.png\<close>, ask once whether the text
  \<open>Welcome to Pinn\<close> is visible, and print one of the two messages (the \<open>print\<close> call
  is a step too). Nothing else is called, written or printed.
\<close>

theorem verify_call_sequence:
  assumes "goto_r w ''http://localhost:5173'' = Inr ()"
    and "sleep_r w 2 = Inr ()"
    and "screenshot_r w ''/home/jules/verification/initial_load.png'' = Inr ()"
    and "is_visible_r w (ByText ''Welcome to Pinn'') = Inr b"
    and "print_r w (if b then ''Onboarding visible'' else ''Not on onboarding?'') = Inr ()"
  shows "verify_notes_load w pg init =
    (Inr (), \<lparr>trace = [Goto ''http://localhost:5173'', Sleep 2,
         Screenshot ''/home/jules/verification/initial_load.png'',
         IsVisible (ByText ''Welcome to Pinn''),
         Print (if b then ''Onboarding visible'' else ''Not on onboarding?'')],
       files = [''/home/jules/verification/initial_load.png''],
       stdout = [if b then ''Onboarding visible'' else ''Not on onboarding?'']\<rparr>)"
  by (simp add: verify_ok [OF assms] init_def)

theorem verify_call_sequence_witness:
  "goto_r (served False) ''http://localhost:5173'' = Inr ()
   \<and> sleep_r (served False) 2 = Inr ()
   \<and> screenshot_r (served False) ''/home/jules/verification/initial_load.png'' = Inr ()
   \<and> is_visible_r (served False) (ByText ''Welcome to Pinn'') = Inr False
   \<and> print_r (served False) ''Not on onboarding?'' = Inr ()
   \<and> verify_notes_load (served False) Page init =
    (Inr (), \<lparr>trace = [Goto ''http://localhost:5173'', Sleep 2,
         Screenshot ''/home/jules/verification/initial_load.png'',
         IsVisible (ByText ''Welcome to Pinn''),
         Print ''Not on onboarding?''],
       files = [''/home/jules/verification/initial_load.png''],
       stdout = [''Not on onboarding?'']\<rparr>)"
proof -
  have h: "goto_r (served False) ''http://localhost:5173'' = Inr ()"
      "sleep_r (served False) 2 = Inr ()"
      "screenshot_r (served False) ''/home/jules/verification/initial_load.png'' = Inr ()"
      "is_visible_r (served False) (ByText ''Welcome to Pinn'') = Inr False"
    by (simp_all add: served_def)
  have p: "print_r (served False) (if False then ''Onboarding visible'' else ''Not on onboarding?'')
      = Inr ()"
    by (simp add: served_def)
  show ?thesis
    using h p verify_call_sequence [OF h p, of Page] by simp
qed

text \<open>
  Against claim C2 as it is worded (the line is printed in every run that reaches the
  check): the page is served and the text is visible, but standard output is closed; the
  \<open>print\<close> call raises, nothing is printed and the exception leaves
  \<open>verify_notes_load\<close>.
\<close>

theorem message_not_printed_counterexample:
  "goto_r (stdout_closed True) ''http://localhost:5173'' = Inr ()
   \<and> sleep_r (stdout_closed True) 2 = Inr ()
   \<and> screenshot_r (stdout_closed True) ''/home/jules/verification/initial_load.png'' = Inr ()
   \<and> is_visible_r (stdout_closed True) (ByText ''Welcome to Pinn'') = Inr True
   \<and> verify_notes_load (stdout_closed True) Page init =
       (Inl (Raised ''ValueError: I/O operation on closed file''),
        \<lparr>trace = [Goto ''http://localhost:5173'', Sleep 2,
           Screenshot ''/home/jules/verification/initial_load.png'',
           IsVisible (ByText ''Welcome to Pinn''), Print ''Onboarding visible''],
         files = [''/home/jules/verification/initial_load.png''], stdout = []\<rparr>)"
proof -
  have h: "goto_r (stdout_closed True) ''http://localhost:5173'' = Inr ()"
      "sleep_r (stdout_closed True) 2 = Inr ()"
      "screenshot_r (stdout_closed True) ''/home/jules/verification/initial_load.png'' = Inr ()"
      "is_visible_r (stdout_closed True) (ByText ''Welcome to Pinn'') = Inr True"
    by (simp_all add: stdout_closed_def served_def)
  have p: "print_r (stdout_closed True)
        (if True then ''Onboarding visible'' else ''Not on onboarding?'')
      = Inl (Raised ''ValueError: I/O operation on closed file'')"
    by (simp add: stdout_closed_def served_def)
  have v: "verify_notes_load (stdout_closed True) Page init =
       (Inl (Raised ''ValueError: I/O operation on closed file''),
        \<lparr>trace = [Goto ''http://localhost:5173'', Sleep 2,
           Screenshot ''/home/jules/verification/initial_load.png'',
           IsVisible (ByText ''Welcome to Pinn''), Print ''Onboarding visible''],
         files = [''/home/jules/verification/initial_load.png''], stdout = []\<rparr>)"
    by (simp add: verify_print_raises [OF h p] init_def)
  show ?thesis
    by (intro conjI) (rule h v)+
qed

text \<open>
  Claim C2, amended. In a run that reaches the visibility check and gets a boolean from it,
  the script calls \<open>print\<close> exactly once, as its last call, with \<open>Onboarding visible\<close>
  when the text is visible and with \<open>Not on onboarding?\<close> when it is not: the message is a
  function of that boolean alone. When the \<open>print\<close> call returns, that line is what the
  run printed; when it raises, nothing is printed and the exception leaves
  \<open>verify_notes_load\<close>.
\<close>

theorem message_follows_visibility:
  assumes "goto_r w ''http://localhost:5173'' = Inr ()"
    and "sleep_r w 2 = Inr ()"
    and "screenshot_r w ''/home/jules/verification/initial_load.png'' = Inr ()"
    and "is_visible_r w (ByText ''Welcome to Pinn'') = Inr b"
  shows "trace (snd (verify_notes_load w pg s)) =
           trace s @ [Goto ''http://localhost:5173'', Sleep 2,
             Screenshot ''/home/jules/verification/initial_load.png'',
             IsVisible (ByText ''Welcome to Pinn''),
             Print (if b then ''Onboarding visible'' else ''Not on onboarding?'')]
       \<and> (print_r w (if b then ''Onboarding visible'' else ''Not on onboarding?'') = Inr () \<longrightarrow>
            fst (verify_notes_load w pg s) = Inr ()
            \<and> stdout (snd (verify_notes_load w pg s)) =
                stdout s @ [if b then ''Onboarding visible'' else ''Not on onboarding?''])
       \<and> (print_r w (if b then ''Onboarding visible'' else ''Not on onboarding?'') = Inl e \<longrightarrow>
            fst (verify_notes_load w pg s) = Inl e
            \<and> stdout (snd (verify_notes_load w pg s)) = stdout s)"
proof -
  have t: "trace (snd (verify_notes_load w pg s)) =
           trace s @ [Goto ''http://localhost:5173'', Sleep 2,
             Screenshot ''/home/jules/verification/initial_load.png'',
             IsVisible (ByText ''Welcome to Pinn''),
             Print (if b then ''Onboarding visible'' else ''Not on onboarding?'')]"
    by (rule verify_reaches_print [OF assms, THEN conjunct1])
  have r: "print_r w (if b then ''Onboarding visible'' else ''Not on onboarding?'') = Inr () \<longrightarrow>
            fst (verify_notes_load w pg s) = Inr ()
            \<and> stdout (snd (verify_notes_load w pg s)) =
                stdout s @ [if b then ''Onboarding visible'' else ''Not on onboarding?'']"
  proof
    assume p: "print_r w (if b then ''Onboarding visible'' else ''Not on onboarding?'') = Inr ()"
    show "fst (verify_notes_load w pg s) = Inr ()
            \<and> stdout (snd (verify_notes_load w pg s)) =
                stdout s @ [if b then ''Onboarding visible'' else ''Not on onboarding?'']"
      by (simp add: verify_ok [OF assms p])
  qed
  have x: "print_r w (if b then ''Onboarding visible'' else ''Not on onboarding?'') = Inl e \<longrightarrow>
            fst (verify_notes_load w pg s) = Inl e
            \<and> stdout (snd (verify_notes_load w pg s)) = stdout s"
  proof
    assume p: "print_r w (if b then ''Onboarding visible'' else ''Not on onboarding?'') = Inl e"
    show "fst (verify_notes_load w pg s) = Inl e
            \<and> stdout (snd (verify_notes_load w pg s)) = stdout s"
      by (simp add: verify_print_raises [OF assms p])
  qed
  show ?thesis
    by (intro conjI) (rule t r x)+
qed

theorem message_follows_visibility_witness:
  "goto_r (served False) ''http://localhost:5173'' = Inr ()
   \<and> sleep_r (served False) 2 = Inr ()
   \<and> screenshot_r (served False) ''/home/jules/verification/initial_load.png'' = Inr ()
   \<and> is_visible_r (served False) (ByText ''Welcome to Pinn'') = Inr False
   \<and> print_r (served False) ''Not on onboarding?'' = Inr ()
   \<and> trace (snd (verify_notes_load (served False) Page init)) =
        [Goto ''http://localhost:5173'', Sleep 2,
         Screenshot ''/home/jules/verification/initial_load.png'',
         IsVisible (ByText ''Welcome to Pinn''), Print ''Not on onboarding?'']
   \<and> fst (verify_notes_load (served False) Page init) = Inr ()
   \<and> stdout (snd (verify_notes_load (served False) Page init)) = [''Not on onboarding?'']"
proof -
  have h: "goto_r (served False) ''http://localhost:5173'' = Inr ()"
      "sleep_r (served False) 2 = Inr ()"
      "screenshot_r (served False) ''/home/jules/verification/initial_load.png'' = Inr ()"
      "is_visible_r (served False) (ByText ''Welcome to Pinn'') = Inr False"
    by (simp_all add: served_def)
  have q: "print_r (served False) ''Not on onboarding?'' = Inr ()"
    by (simp add: served_def)
  have p: "print_r (served False) (if False then ''Onboarding visible'' else ''Not on onboarding?'')
      = Inr ()"
    by (simp add: served_def)
  have i: "trace init = []" "stdout init = []"
    by (simp_all add: init_def)
  note n = message_follows_visibility [OF h, where pg = Page and s = init]
  have t: "trace (snd (verify_notes_load (served False) Page init)) =
        [Goto ''http://localhost:5173'', Sleep 2,
         Screenshot ''/home/jules/verification/initial_load.png'',
         IsVisible (ByText ''Welcome to Pinn''), Print ''Not on onboarding?'']"
    using n [THEN conjunct1] by (simp add: i)
  have r: "fst (verify_notes_load (served False) Page init) = Inr ()
      \<and> stdout (snd (verify_notes_load (served False) Page init)) = [''Not on onboarding?'']"
    using n [THEN conjunct2, THEN conjunct1, THEN mp, OF p] by (simp add: i)
  show ?thesis
    by (intro conjI) (rule h q t r [THEN conjunct1] r [THEN conjunct2])+
qed

text \<open>
  Claim C3. In a run of the entry point in which the browser is launched and the page is
  created, \<open>browser.close()\<close> is called exactly once, after everything
  \<open>verify_notes_load\<close> did, whether \<open>verify_notes_load\<close> returned or raised.
\<close>

theorem main_closes_browser:
  assumes "start_r w = Inr p" and "launch_r w True = Inr b" and "new_page_r w = Inr pg"
  shows "trace (snd (main w init)) =
           [Start, Launch True, NewPage] @ trace (snd (verify_notes_load w pg init)) @ [Close, Stop]
         \<and> filter (\<lambda>a. a = Close) (trace (snd (main w init))) = [Close]"
proof -
  have t: "trace (snd (main w init)) =
           [Start, Launch True, NewPage] @ trace (snd (verify_notes_load w pg init)) @ [Close, Stop]"
    by (rule main_effects(1) [OF assms])
  have "filter (\<lambda>a. a = Close) (trace (snd (verify_notes_load w pg init))) = []"
    using verify_no_close [of w pg] by (auto simp add: filter_empty_conv)
  then show ?thesis
    using t by simp
qed

theorem main_closes_browser_witness:
  "start_r unreachable = Inr Playwright \<and> launch_r unreachable True = Inr Browser
   \<and> new_page_r unreachable = Inr Page
   \<and> fst (verify_notes_load unreachable Page init) = Inl (Raised ''net::ERR_CONNECTION_REFUSED'')
   \<and> fst (verify_notes_load (served True) Page init) = Inr ()
   \<and> filter (\<lambda>a. a = Close) (trace (snd (main unreachable init))) = [Close]
   \<and> filter (\<lambda>a. a = Close) (trace (snd (main (served True) init))) = [Close]"
proof -
  have u: "start_r unreachable = Inr Playwright" "launch_r unreachable True = Inr Browser"
      "new_page_r unreachable = Inr Page"
    by (simp_all add: unreachable_def served_def)
  have v: "start_r (served True) = Inr Playwright" "launch_r (served True) True = Inr Browser"
      "new_page_r (served True) = Inr Page"
    by (simp_all add: served_def)
  have r: "fst (verify_notes_load unreachable Page init) = Inl (Raised ''net::ERR_CONNECTION_REFUSED'')"
      "fst (verify_notes_load (served True) Page init) = Inr ()"
    by (simp_all add: verify_notes_load_def prims unreachable_def served_def)
  show ?thesis
    using u r main_closes_browser [OF u, THEN conjunct2]
      main_closes_browser [OF v, THEN conjunct2]
    by simp
qed

text \<open>
  Against claim C4 as it is worded (the exception of the step leaves the entry point in
  every run): the navigation raises and \<open>browser.close()\<close> raises as well; the exception
  that leaves the entry point is the one of \<open>close\<close>, not the one of the navigation.
\<close>

theorem cleanup_exception_counterexample:
  "goto_r close_fails ''http://localhost:5173'' = Inl (Raised ''net::ERR_CONNECTION_REFUSED'')
   \<and> fst (verify_notes_load close_fails Page init) = Inl (Raised ''net::ERR_CONNECTION_REFUSED'')
   \<and> main close_fails init =
       (Inl (Raised ''Browser.close: Connection closed''),
        \<lparr>trace = [Start, Launch True, NewPage, Goto ''http://localhost:5173'', Close, Stop],
         files = [], stdout = []\<rparr>)"
proof -
  have g: "goto_r close_fails ''http://localhost:5173'' = Inl (Raised ''net::ERR_CONNECTION_REFUSED'')"
    by (simp add: close_fails_def unreachable_def served_def)
  have v: "fst (verify_notes_load close_fails Page init) = Inl (Raised ''net::ERR_CONNECTION_REFUSED'')"
    by (simp add: verify_notes_load_def then_run_def goto_def extern_def g)
  have m: "main close_fails init =
       (Inl (Raised ''Browser.close: Connection closed''),
        \<lparr>trace = [Start, Launch True, NewPage, Goto ''http://localhost:5173'', Close, Stop],
         files = [], stdout = []\<rparr>)"
    by (simp add: main_def verify_notes_load_def prims close_fails_def unreachable_def
        served_def init_def)
  show ?thesis
    by (intro conjI) (rule g v m)+
qed

text \<open>
  Claim C4, amended. An exception raised by the navigation, the wait, the screenshot or the
  visibility check leaves \<open>verify_notes_load\<close> as it was raised; no \<open>print\<close> call is
  made and nothing is printed for it. The entry point then runs its cleanup, closing the
  browser and stopping the driver, and ends with an exception in every case: the exception
  of the step when both cleanup calls return, otherwise the exception of the cleanup call
  that raised last.
\<close>

theorem step_exception_propagates:
  assumes raised: "goto_r w ''http://localhost:5173'' = Inl e
      \<or> (goto_r w ''http://localhost:5173'' = Inr () \<and> sleep_r w 2 = Inl e)
      \<or> (goto_r w ''http://localhost:5173'' = Inr () \<and> sleep_r w 2 = Inr ()
          \<and> screenshot_r w ''/home/jules/verification/initial_load.png'' = Inl e)
      \<or> (goto_r w ''http://localhost:5173'' = Inr () \<and> sleep_r w 2 = Inr ()
          \<and> screenshot_r w ''/home/jules/verification/initial_load.png'' = Inr ()
          \<and> is_visible_r w (ByText ''Welcome to Pinn'') = Inl e)"
    and acquired: "start_r w = Inr p" "launch_r w True = Inr b" "new_page_r w = Inr pg"
  shows "fst (verify_notes_load w pg s) = Inl e
       \<and> stdout (snd (verify_notes_load w pg s)) = stdout s
       \<and> Print m \<notin> set (trace (snd (verify_notes_load w pg init)))
       \<and> trace (snd (main w init)) =
           [Start, Launch True, NewPage] @ trace (snd (verify_notes_load w pg init)) @ [Close, Stop]
       \<and> fst (main w init) =
           (case close_r w of
              Inl c \<Rightarrow> (case stop_r w of Inl d \<Rightarrow> Inl d | Inr _ \<Rightarrow> Inl c)
            | Inr _ \<Rightarrow> (case stop_r w of Inl d \<Rightarrow> Inl d | Inr _ \<Rightarrow> Inl e))
       \<and> isl (fst (main w init))
       \<and> (close_r w = Inr () \<and> stop_r w = Inr () \<longrightarrow> fst (main w init) = Inl e)
       \<and> stdout (snd (main w init)) = []"
proof -
  have v: "fst (verify_notes_load w pg s) = Inl e \<and> stdout (snd (verify_notes_load w pg s)) = stdout s"
    for s
    using raised by (elim disjE conjE) (simp_all add: verify_notes_load_def prims)
  have n: "Print m \<notin> set (trace (snd (verify_notes_load w pg init)))"
    using raised by (elim disjE conjE) (simp_all add: verify_notes_load_def prims init_def)
  have i: "stdout init = []"
    by (simp add: init_def)
  have t: "trace (snd (main w init)) =
           [Start, Launch True, NewPage] @ trace (snd (verify_notes_load w pg init)) @ [Close, Stop]"
    by (rule main_effects(1) [OF acquired])
  have f: "fst (main w init) =
           (case close_r w of
              Inl c \<Rightarrow> (case stop_r w of Inl d \<Rightarrow> Inl d | Inr _ \<Rightarrow> Inl c)
            | Inr _ \<Rightarrow> (case stop_r w of Inl d \<Rightarrow> Inl d | Inr _ \<Rightarrow> Inl e))"
    using v [of init] by (simp add: main_result [OF acquired] split: sum.splits)
  have r: "isl (fst (main w init))"
    by (simp add: f split: sum.splits)
  have c: "close_r w = Inr () \<and> stop_r w = Inr () \<longrightarrow> fst (main w init) = Inl e"
    by (simp add: f)
  have o: "stdout (snd (main w init)) = []"
    using v [of init] i by (simp add: main_effects(3) [OF acquired])
  show ?thesis
    by (intro conjI) (rule v [of s, THEN conjunct1] v [of s, THEN conjunct2] n t f r c o)+
qed

theorem step_exception_propagates_witness:
  "goto_r shot_fails ''http://localhost:5173'' = Inr () \<and> sleep_r shot_fails 2 = Inr ()
   \<and> screenshot_r shot_fails ''/home/jules/verification/initial_load.png'' = Inl (Raised ''Page.screenshot: Timeout'')
   \<and> start_r shot_fails = Inr Playwright \<and> launch_r shot_fails True = Inr Browser
   \<and> new_page_r shot_fails = Inr Page \<and> close_r shot_fails = Inr () \<and> stop_r shot_fails = Inr ()
   \<and> fst (verify_notes_load shot_fails Page init) = Inl (Raised ''Page.screenshot: Timeout'')
   \<and> fst (main shot_fails init) = Inl (Raised ''Page.screenshot: Timeout'')
   \<and> stdout (snd (main shot_fails init)) = []"
proof -
  have h: "goto_r shot_fails ''http://localhost:5173'' = Inr ()" "sleep_r shot_fails 2 = Inr ()"
      "screenshot_r shot_fails ''/home/jules/verification/initial_load.png'' = Inl (Raised ''Page.screenshot: Timeout'')"
    by (simp_all add: shot_fails_def served_def)
  have a: "start_r shot_fails = Inr Playwright" "launch_r shot_fails True = Inr Browser"
      "new_page_r shot_fails = Inr Page"
    by (simp_all add: shot_fails_def served_def)
  have c: "close_r shot_fails = Inr ()" "stop_r shot_fails = Inr ()"
    by (simp_all add: shot_fails_def served_def)
  have k: "close_r shot_fails = Inr () \<and> stop_r shot_fails = Inr ()"
    by (intro conjI) (rule c)+
  have d: "goto_r shot_fails ''http://localhost:5173'' = Inl (Raised ''Page.screenshot: Timeout'')
      \<or> (goto_r shot_fails ''http://localhost:5173'' = Inr ()
          \<and> sleep_r shot_fails 2 = Inl (Raised ''Page.screenshot: Timeout''))
      \<or> (goto_r shot_fails ''http://localhost:5173'' = Inr () \<and> sleep_r shot_fails 2 = Inr ()
          \<and> screenshot_r shot_fails ''/home/jules/verification/initial_load.png''
              = Inl (Raised ''Page.screenshot: Timeout''))
      \<or> (goto_r shot_fails ''http://localhost:5173'' = Inr () \<and> sleep_r shot_fails 2 = Inr ()
          \<and> screenshot_r shot_fails ''/home/jules/verification/initial_load.png'' = Inr ()
          \<and> is_visible_r shot_fails (ByText ''Welcome to Pinn'') = Inl (Raised ''Page.screenshot: Timeout''))"
    using h by simp
  note n = step_exception_propagates [OF d a, where s = init and m = "''Onboarding visible''"]
  have v: "fst (verify_notes_load shot_fails Page init) = Inl (Raised ''Page.screenshot: Timeout'')"
    by (rule n [THEN conjunct1])
  have m: "fst (main shot_fails init) = Inl (Raised ''Page.screenshot: Timeout'')"
    by (rule n [THEN conjunct2, THEN conjunct2, THEN conjunct2, THEN conjunct2, THEN conjunct2,
          THEN conjunct2, THEN conjunct1, THEN mp, OF k])
  have o: "stdout (snd (main shot_fails init)) = []"
    by (rule n [THEN conjunct2, THEN conjunct2, THEN conjunct2, THEN conjunct2, THEN conjunct2,
          THEN conjunct2, THEN conjunct2])
  show ?thesis
    by (intro conjI) (rule h a c v m o)+
qed

text \<open>
  Claim C5. When the navigation raises, the screenshot call is not reached and no file is
  written, in \<open>verify_notes_load\<close> and in the entry point; in any run a screenshot call,
  and a written file, come only after the navigation has returned.
\<close>

theorem no_screenshot_without_navigation:
  "(goto_r w ''http://localhost:5173'' = Inl e \<longrightarrow>
       verify_notes_load w pg init =
         (Inl e, \<lparr>trace = [Goto ''http://localhost:5173''], files = [], stdout = []\<rparr>))
   \<and> (goto_r w ''http://localhost:5173'' = Inl e \<and> start_r w = Inr p \<and> launch_r w True = Inr b
        \<and> new_page_r w = Inr pg \<longrightarrow>
       files (snd (main w init)) = []
       \<and> trace (snd (main w init)) = [Start, Launch True, NewPage, Goto ''http://localhost:5173'', Close, Stop])
   \<and> (Screenshot f \<in> set (trace (snd (verify_notes_load w pg init))) \<longrightarrow>
       goto_r w ''http://localhost:5173'' = Inr ()
       \<and> take 1 (trace (snd (verify_notes_load w pg init))) = [Goto ''http://localhost:5173''])
   \<and> (files (snd (verify_notes_load w pg init)) \<noteq> [] \<longrightarrow>
       goto_r w ''http://localhost:5173'' = Inr ())"
proof -
  have a: "goto_r w ''http://localhost:5173'' = Inl e \<longrightarrow>
       verify_notes_load w pg init =
         (Inl e, \<lparr>trace = [Goto ''http://localhost:5173''], files = [], stdout = []\<rparr>)"
    by (simp add: verify_notes_load_def prims init_def)
  have b: "goto_r w ''http://localhost:5173'' = Inl e \<and> start_r w = Inr p \<and> launch_r w True = Inr b
        \<and> new_page_r w = Inr pg \<longrightarrow>
       files (snd (main w init)) = []
       \<and> trace (snd (main w init)) = [Start, Launch True, NewPage, Goto ''http://localhost:5173'', Close, Stop]"
  proof (intro impI, elim conjE)
    assume g: "goto_r w ''http://localhost:5173'' = Inl e"
      and q: "start_r w = Inr p" "launch_r w True = Inr b" "new_page_r w = Inr pg"
    have "verify_notes_load w pg init =
         (Inl e, \<lparr>trace = [Goto ''http://localhost:5173''], files = [], stdout = []\<rparr>)"
      using a g by simp
    then show "files (snd (main w init)) = []
       \<and> trace (snd (main w init)) = [Start, Launch True, NewPage, Goto ''http://localhost:5173'', Close, Stop]"
      by (simp add: main_effects [OF q])
  qed
  have c: "Screenshot f \<in> set (trace (snd (verify_notes_load w pg init))) \<longrightarrow>
       goto_r w ''http://localhost:5173'' = Inr ()
       \<and> take 1 (trace (snd (verify_notes_load w pg init))) = [Goto ''http://localhost:5173'']"
    by (simp add: verify_notes_load_def prims init_def split: sum.splits)
  have d: "files (snd (verify_notes_load w pg init)) \<noteq> [] \<longrightarrow>
       goto_r w ''http://localhost:5173'' = Inr ()"
    by (simp add: verify_notes_load_def prims init_def split: sum.splits)
  show ?thesis
    by (intro conjI) (rule a b c d)+
qed

theorem no_screenshot_without_navigation_witness:
  "goto_r unreachable ''http://localhost:5173'' = Inl (Raised ''net::ERR_CONNECTION_REFUSED'')
   \<and> start_r unreachable = Inr Playwright \<and> launch_r unreachable True = Inr Browser
   \<and> new_page_r unreachable = Inr Page
   \<and> verify_notes_load unreachable Page init =
         (Inl (Raised ''net::ERR_CONNECTION_REFUSED''),
          \<lparr>trace = [Goto ''http://localhost:5173''], files = [], stdout = []\<rparr>)
   \<and> files (snd (main unreachable init)) = []
   \<and> trace (snd (main unreachable init)) =
       [Start, Launch True, NewPage, Goto ''http://localhost:5173'', Close, Stop]"
proof -
  have h: "goto_r unreachable ''http://localhost:5173'' = Inl (Raised ''net::ERR_CONNECTION_REFUSED'')"
      "start_r unreachable = Inr Playwright" "launch_r unreachable True = Inr Browser"
      "new_page_r unreachable = Inr Page"
    by (simp_all add: unreachable_def served_def)
  note n = no_screenshot_without_navigation
      [where w = unreachable and e = "Raised ''net::ERR_CONNECTION_REFUSED''" and pg = Page
        and p = Playwright and b = Browser and f = "''/home/jules/verification/initial_load.png''"]
  have v: "verify_notes_load unreachable Page init =
         (Inl (Raised ''net::ERR_CONNECTION_REFUSED''),
          \<lparr>trace = [Goto ''http://localhost:5173''], files = [], stdout = []\<rparr>)"
    by (rule n [THEN conjunct1, THEN mp, OF h(1)])
  have a: "goto_r unreachable ''http://localhost:5173'' = Inl (Raised ''net::ERR_CONNECTION_REFUSED'')
      \<and> start_r unreachable = Inr Playwright \<and> launch_r unreachable True = Inr Browser
      \<and> new_page_r unreachable = Inr Page"
    by (intro conjI) (rule h)+
  have m: "files (snd (main unreachable init)) = []
      \<and> trace (snd (main unreachable init)) =
       [Start, Launch True, NewPage, Goto ''http://localhost:5173'', Close, Stop]"
    by (rule n [THEN conjunct2, THEN conjunct1, THEN mp, OF a])
  show ?thesis
    by (intro conjI) (rule h v m [THEN conjunct1] m [THEN conjunct2])+
qed

text \<open>
  Against claim C6 as it is worded (a screenshot in every run in which the navigation
  succeeds): the navigation returns, the wait is interrupted or the screenshot call raises,
  and no file is written.
\<close>

theorem screenshot_missing_counterexample:
  "goto_r interrupted ''http://localhost:5173'' = Inr ()
   \<and> files (snd (verify_notes_load interrupted Page init)) = []
   \<and> files (snd (main interrupted init)) = []
   \<and> goto_r shot_fails ''http://localhost:5173'' = Inr ()
   \<and> files (snd (verify_notes_load shot_fails Page init)) = []"
proof -
  have h: "goto_r interrupted ''http://localhost:5173'' = Inr ()"
      "goto_r shot_fails ''http://localhost:5173'' = Inr ()"
    by (simp_all add: interrupted_def shot_fails_def served_def)
  have v: "files (snd (verify_notes_load interrupted Page init)) = []"
    by (simp add: verify_notes_load_def prims interrupted_def served_def init_def)
  have u: "files (snd (verify_notes_load shot_fails Page init)) = []"
    by (simp add: verify_notes_load_def prims shot_fails_def served_def init_def)
  have a: "start_r interrupted = Inr Playwright" "launch_r interrupted True = Inr Browser"
      "new_page_r interrupted = Inr Page"
    by (simp_all add: interrupted_def served_def)
  have m: "files (snd (main interrupted init)) = []"
    using v by (simp add: main_effects(2) [OF a])
  show ?thesis
    by (intro conjI) (rule h v u m)+
qed

text \<open>
  Claim C6, amended. In every run the script writes at most one file, and only
  \<open>/home/jules/verification/initial_load.png\<close>. When the navigation, the wait and the
  screenshot call return, exactly that one file is written, and the screenshot call comes
  before the visibility check: the file is there whatever the check answers, also when the
  check raises.
\<close>

theorem one_screenshot_before_check:
  "(length (files (snd (verify_notes_load w pg init))) \<le> 1
      \<and> set (files (snd (verify_notes_load w pg init))) \<subseteq> {''/home/jules/verification/initial_load.png''})
   \<and> (goto_r w ''http://localhost:5173'' = Inr () \<and> sleep_r w 2 = Inr ()
        \<and> screenshot_r w ''/home/jules/verification/initial_load.png'' = Inr () \<longrightarrow>
       files (snd (verify_notes_load w pg init)) = [''/home/jules/verification/initial_load.png'']
       \<and> take 4 (trace (snd (verify_notes_load w pg init))) =
           [Goto ''http://localhost:5173'', Sleep 2,
            Screenshot ''/home/jules/verification/initial_load.png'',
            IsVisible (ByText ''Welcome to Pinn'')])
   \<and> (goto_r w ''http://localhost:5173'' = Inr () \<and> sleep_r w 2 = Inr ()
        \<and> screenshot_r w ''/home/jules/verification/initial_load.png'' = Inr ()
        \<and> start_r w = Inr p \<and> launch_r w True = Inr b \<and> new_page_r w = Inr pg \<longrightarrow>
       files (snd (main w init)) = [''/home/jules/verification/initial_load.png''])"
proof -
  have a: "length (files (snd (verify_notes_load w pg init))) \<le> 1
      \<and> set (files (snd (verify_notes_load w pg init))) \<subseteq> {''/home/jules/verification/initial_load.png''}"
    using verify_files [of w pg] by simp
  have b: "goto_r w ''http://localhost:5173'' = Inr () \<and> sleep_r w 2 = Inr ()
        \<and> screenshot_r w ''/home/jules/verification/initial_load.png'' = Inr () \<longrightarrow>
       files (snd (verify_notes_load w pg init)) = [''/home/jules/verification/initial_load.png'']
       \<and> take 4 (trace (snd (verify_notes_load w pg init))) =
           [Goto ''http://localhost:5173'', Sleep 2,
            Screenshot ''/home/jules/verification/initial_load.png'',
            IsVisible (ByText ''Welcome to Pinn'')]"
    by (simp add: verify_notes_load_def prims init_def split: sum.splits)
  have c: "goto_r w ''http://localhost:5173'' = Inr () \<and> sleep_r w 2 = Inr ()
        \<and> screenshot_r w ''/home/jules/verification/initial_load.png'' = Inr ()
        \<and> start_r w = Inr p \<and> launch_r w True = Inr b \<and> new_page_r w = Inr pg \<longrightarrow>
       files (snd (main w init)) = [''/home/jules/verification/initial_load.png'']"
  proof (intro impI, elim conjE)
    assume g: "goto_r w ''http://localhost:5173'' = Inr ()" "sleep_r w 2 = Inr ()"
        "screenshot_r w ''/home/jules/verification/initial_load.png'' = Inr ()"
      and q: "start_r w = Inr p" "launch_r w True = Inr b" "new_page_r w = Inr pg"
    have "files (snd (verify_notes_load w pg init)) = [''/home/jules/verification/initial_load.png'']"
      using b g by simp
    then show "files (snd (main w init)) = [''/home/jules/verification/initial_load.png'']"
      by (simp add: main_effects(2) [OF q])
  qed
  show ?thesis
    by (intro conjI) (rule a [THEN conjunct1] a [THEN conjunct2] b c)+
qed

theorem one_screenshot_before_check_witness:
  "goto_r check_fails ''http://localhost:5173'' = Inr () \<and> sleep_r check_fails 2 = Inr ()
   \<and> screenshot_r check_fails ''/home/jules/verification/initial_load.png'' = Inr ()
   \<and> is_visible_r check_fails (ByText ''Welcome to Pinn'')
        = Inl (Raised ''Locator.is_visible: strict mode violation'')
   \<and> files (snd (verify_notes_load check_fails Page init)) = [''/home/jules/verification/initial_load.png'']
   \<and> take 4 (trace (snd (verify_notes_load check_fails Page init))) =
           [Goto ''http://localhost:5173'', Sleep 2,
            Screenshot ''/home/jules/verification/initial_load.png'',
            IsVisible (ByText ''Welcome to Pinn'')]"
proof -
  have h: "goto_r check_fails ''http://localhost:5173'' = Inr ()" "sleep_r check_fails 2 = Inr ()"
      "screenshot_r check_fails ''/home/jules/verification/initial_load.png'' = Inr ()"
      "is_visible_r check_fails (ByText ''Welcome to Pinn'')
        = Inl (Raised ''Locator.is_visible: strict mode violation'')"
    by (simp_all add: check_fails_def served_def)
  have a: "goto_r check_fails ''http://localhost:5173'' = Inr () \<and> sleep_r check_fails 2 = Inr ()
      \<and> screenshot_r check_fails ''/home/jules/verification/initial_load.png'' = Inr ()"
    by (intro conjI) (rule h)+
  note n = one_screenshot_before_check [where w = check_fails and pg = Page and p = Playwright
      and b = Browser, THEN conjunct2, THEN conjunct1, THEN mp, OF a]
  show ?thesis
    by (intro conjI) (rule h n [THEN conjunct1] n [THEN conjunct2])+
qed

text \<open>
  Claim C7. When the page answers the visibility query as the application does for a fresh
  browsing context (empty client-side storage, onboarding shown while the configuration key
  is absent), the \<open>else\<close> branch is never taken: \<open>print\<close> is never called with
  \<open>Not on onboarding?\<close> and that line is not printed; a run that reaches the check takes
  the onboarding branch, calling \<open>print\<close> with \<open>Onboarding visible\<close>.
\<close>

theorem fresh_context_shows_onboarding:
  assumes "is_visible_r w = app_is_visible key fresh_context"
  shows "Print ''Not on onboarding?'' \<notin> set (trace (snd (verify_notes_load w pg init)))
       \<and> ''Not on onboarding?'' \<notin> set (stdout (snd (verify_notes_load w pg init)))
       \<and> (goto_r w ''http://localhost:5173'' = Inr () \<and> sleep_r w 2 = Inr ()
            \<and> screenshot_r w ''/home/jules/verification/initial_load.png'' = Inr () \<longrightarrow>
           trace (snd (verify_notes_load w pg init)) =
             [Goto ''http://localhost:5173'', Sleep 2,
              Screenshot ''/home/jules/verification/initial_load.png'',
              IsVisible (ByText ''Welcome to Pinn''), Print ''Onboarding visible''])
       \<and> (goto_r w ''http://localhost:5173'' = Inr () \<and> sleep_r w 2 = Inr ()
            \<and> screenshot_r w ''/home/jules/verification/initial_load.png'' = Inr ()
            \<and> print_r w ''Onboarding visible'' = Inr () \<longrightarrow>
           fst (verify_notes_load w pg init) = Inr ()
           \<and> stdout (snd (verify_notes_load w pg init)) = [''Onboarding visible''])"
proof -
  have v: "is_visible_r w (ByText ''Welcome to Pinn'') = Inr True"
    by (simp add: assms app_is_visible_def onboarding_shown_def fresh_context_def)
  have a: "Print ''Not on onboarding?'' \<notin> set (trace (snd (verify_notes_load w pg init)))"
    using v by (simp add: verify_notes_load_def prims init_def split: sum.splits)
  have b: "''Not on onboarding?'' \<notin> set (stdout (snd (verify_notes_load w pg init)))"
    using v by (simp add: verify_notes_load_def prims init_def split: sum.splits)
  have c: "goto_r w ''http://localhost:5173'' = Inr () \<and> sleep_r w 2 = Inr ()
            \<and> screenshot_r w ''/home/jules/verification/initial_load.png'' = Inr () \<longrightarrow>
           trace (snd (verify_notes_load w pg init)) =
             [Goto ''http://localhost:5173'', Sleep 2,
              Screenshot ''/home/jules/verification/initial_load.png'',
              IsVisible (ByText ''Welcome to Pinn''), Print ''Onboarding visible'']"
    using v by (simp add: verify_notes_load_def prims init_def split: sum.splits)
  have d: "goto_r w ''http://localhost:5173'' = Inr () \<and> sleep_r w 2 = Inr ()
            \<and> screenshot_r w ''/home/jules/verification/initial_load.png'' = Inr ()
            \<and> print_r w ''Onboarding visible'' = Inr () \<longrightarrow>
           fst (verify_notes_load w pg init) = Inr ()
           \<and> stdout (snd (verify_notes_load w pg init)) = [''Onboarding visible'']"
    using v by (simp add: verify_notes_load_def prims init_def)
  show ?thesis
    by (intro conjI) (rule a b c d)+
qed

theorem fresh_context_shows_onboarding_witness:
  "is_visible_r (app_world ''config'' fresh_context) = app_is_visible ''config'' fresh_context
   \<and> goto_r (app_world ''config'' fresh_context) ''http://localhost:5173'' = Inr ()
   \<and> sleep_r (app_world ''config'' fresh_context) 2 = Inr ()
   \<and> screenshot_r (app_world ''config'' fresh_context) ''/home/jules/verification/initial_load.png'' = Inr ()
   \<and> print_r (app_world ''config'' fresh_context) ''Onboarding visible'' = Inr ()
   \<and> ''Not on onboarding?'' \<notin> set (stdout (snd (verify_notes_load (app_world ''config'' fresh_context) Page init)))
   \<and> stdout (snd (verify_notes_load (app_world ''config'' fresh_context) Page init)) = [''Onboarding visible'']"
proof -
  have h: "is_visible_r (app_world ''config'' fresh_context) = app_is_visible ''config'' fresh_context"
    by (simp add: app_world_def)
  have g: "goto_r (app_world ''config'' fresh_context) ''http://localhost:5173'' = Inr ()"
      "sleep_r (app_world ''config'' fresh_context) 2 = Inr ()"
      "screenshot_r (app_world ''config'' fresh_context) ''/home/jules/verification/initial_load.png'' = Inr ()"
      "print_r (app_world ''config'' fresh_context) ''Onboarding visible'' = Inr ()"
    by (simp_all add: app_world_def served_def)
  have a: "goto_r (app_world ''config'' fresh_context) ''http://localhost:5173'' = Inr ()
      \<and> sleep_r (app_world ''config'' fresh_context) 2 = Inr ()
      \<and> screenshot_r (app_world ''config'' fresh_context) ''/home/jules/verification/initial_load.png'' = Inr ()
      \<and> print_r (app_world ''config'' fresh_context) ''Onboarding visible'' = Inr ()"
    by (intro conjI) (rule g)+
  note n = fresh_context_shows_onboarding [OF h, of Page]
  note m = n [THEN conjunct2, THEN conjunct2, THEN conjunct2, THEN mp, OF a]
  show ?thesis
    by (intro conjI) (rule h g n [THEN conjunct2, THEN conjunct1] m [THEN conjunct2])+
qed

text \<open>
  Claim C8. When \<open>verify_notes_load\<close> returns, it returns no value, and what it printed
  is exactly one of the two messages: one \<open>print\<close> call, never both lines, never none.
\<close>

theorem exactly_one_message:
  assumes "verify_notes_load w pg init = (Inr u, s')"
  shows "u = ()
       \<and> (stdout s' = [''Onboarding visible''] \<or> stdout s' = [''Not on onboarding?''])
       \<and> \<not> (stdout s' = [''Onboarding visible''] \<and> stdout s' = [''Not on onboarding?''])
       \<and> length (filter (\<lambda>a. case a of Print m \<Rightarrow> True | _ \<Rightarrow> False) (trace s')) = 1"
proof -
  have a: "stdout s' = [''Onboarding visible''] \<or> stdout s' = [''Not on onboarding?'']"
    using assms by (auto simp add: verify_notes_load_def prims init_def split: sum.splits if_splits)
  have b: "\<not> (stdout s' = [''Onboarding visible''] \<and> stdout s' = [''Not on onboarding?''])"
    by auto
  have c: "length (filter (\<lambda>a. case a of Print m \<Rightarrow> True | _ \<Rightarrow> False) (trace s')) = 1"
    using assms by (auto simp add: verify_notes_load_def prims init_def split: sum.splits if_splits)
  show ?thesis
    using a b c by simp
qed

theorem exactly_one_message_witness:
  "verify_notes_load (served False) Page init =
     (Inr (), \<lparr>trace = [Goto ''http://localhost:5173'', Sleep 2,
         Screenshot ''/home/jules/verification/initial_load.png'',
         IsVisible (ByText ''Welcome to Pinn''), Print ''Not on onboarding?''],
       files = [''/home/jules/verification/initial_load.png''],
       stdout = [''Not on onboarding?'']\<rparr>)
   \<and> length (filter (\<lambda>a. case a of Print m \<Rightarrow> True | _ \<Rightarrow> False)
        [Goto ''http://localhost:5173'', Sleep 2,
         Screenshot ''/home/jules/verification/initial_load.png'',
         IsVisible (ByText ''Welcome to Pinn''), Print ''Not on onboarding?'']) = 1"
proof -
  have h: "verify_notes_load (served False) Page init =
     (Inr (), \<lparr>trace = [Goto ''http://localhost:5173'', Sleep 2,
         Screenshot ''/home/jules/verification/initial_load.png'',
         IsVisible (ByText ''Welcome to Pinn''), Print ''Not on onboarding?''],
       files = [''/home/jules/verification/initial_load.png''],
       stdout = [''Not on onboarding?'']\<rparr>)"
    by (simp add: verify_notes_load_def prims served_def init_def)
  note n = exactly_one_message [OF h, THEN conjunct2, THEN conjunct2, THEN conjunct2]
  have c: "length (filter (\<lambda>a. case a of Print m \<Rightarrow> True | _ \<Rightarrow> False)
        [Goto ''http://localhost:5173'', Sleep 2,
         Screenshot ''/home/jules/verification/initial_load.png'',
         IsVisible (ByText ''Welcome to Pinn''), Print ''Not on onboarding?'']) = 1"
    using n by (simp only: state.simps)
  show ?thesis
    by (intro conjI) (rule h c)+
qed

text \<open>
  Claim C9. When the browser is launched and \<open>browser.new_page()\<close> raises,
  \<open>browser.close()\<close> is not called: the page is created before the \<open>try\<close> block is
  entered, so only the driver is stopped and the exception goes on.
\<close>

theorem page_failure_skips_close:
  assumes "start_r w = Inr p" and "launch_r w True = Inr b" and "new_page_r w = Inl e"
  shows "trace (snd (main w init)) = [Start, Launch True, NewPage, Stop]
       \<and> Close \<notin> set (trace (snd (main w init)))
       \<and> fst (main w init) = (case stop_r w of Inl e' \<Rightarrow> Inl e' | Inr _ \<Rightarrow> Inl e)"
proof -
  have m: "main w init = (case stop_r w of Inl e' \<Rightarrow> Inl e' | Inr _ \<Rightarrow> Inl e,
      init\<lparr>trace := trace init @ [Start, Launch True, NewPage, Stop]\<rparr>)"
    using assms
    by (simp add: main_def start_def stop_def launch_def new_page_def then_run_def
        try_finally_def extern_def split: sum.splits)
  have t: "trace (snd (main w init)) = [Start, Launch True, NewPage, Stop]"
    unfolding m by (simp add: init_def)
  have c: "Close \<notin> set (trace (snd (main w init)))"
    by (simp add: t)
  have r: "fst (main w init) = (case stop_r w of Inl e' \<Rightarrow> Inl e' | Inr _ \<Rightarrow> Inl e)"
    by (simp add: m)
  show ?thesis
    by (intro conjI) (rule t c r)+
qed

theorem page_failure_skips_close_witness:
  "start_r no_page = Inr Playwright \<and> launch_r no_page True = Inr Browser
   \<and> new_page_r no_page = Inl (Raised ''Browser.new_page: Target closed'')
   \<and> trace (snd (main no_page init)) = [Start, Launch True, NewPage, Stop]
   \<and> Close \<notin> set (trace (snd (main no_page init)))"
proof -
  have h: "start_r no_page = Inr Playwright" "launch_r no_page True = Inr Browser"
      "new_page_r no_page = Inl (Raised ''Browser.new_page: Target closed'')"
    by (simp_all add: no_page_def served_def)
  note n = page_failure_skips_close [OF h]
  show ?thesis
    by (intro conjI) (rule h n [THEN conjunct1] n [THEN conjunct2, THEN conjunct1])+
qed

text \<open>
  Against claim C10 as it is worded (the four answers alone fix what is printed): two runs
  in which the navigation, the wait and the screenshot return and the text is visible; in
  one the console works, in the other standard output is closed. The first prints
  \<open>Onboarding visible\<close> and returns, the second prints nothing and raises.
\<close>

theorem console_decides_counterexample:
  "goto_r (served True) ''http://localhost:5173'' = Inr ()
   \<and> goto_r (stdout_closed True) ''http://localhost:5173'' = Inr ()
   \<and> sleep_r (served True) 2 = Inr ()
   \<and> sleep_r (stdout_closed True) 2 = Inr ()
   \<and> screenshot_r (served True) ''/home/jules/verification/initial_load.png'' = Inr ()
   \<and> screenshot_r (stdout_closed True) ''/home/jules/verification/initial_load.png'' = Inr ()
   \<and> is_visible_r (served True) (ByText ''Welcome to Pinn'') = Inr True
   \<and> is_visible_r (stdout_closed True) (ByText ''Welcome to Pinn'') = Inr True
   \<and> stdout (snd (verify_notes_load (served True) Page init)) = [''Onboarding visible'']
   \<and> stdout (snd (verify_notes_load (stdout_closed True) Page init)) = []
   \<and> fst (verify_notes_load (served True) Page init) = Inr ()
   \<and> fst (verify_notes_load (stdout_closed True) Page init)
       = Inl (Raised ''ValueError: I/O operation on closed file'')"
proof -
  have a: "goto_r (served True) ''http://localhost:5173'' = Inr ()" "sleep_r (served True) 2 = Inr ()"
      "screenshot_r (served True) ''/home/jules/verification/initial_load.png'' = Inr ()"
      "is_visible_r (served True) (ByText ''Welcome to Pinn'') = Inr True"
    by (simp_all add: served_def)
  have b: "goto_r (stdout_closed True) ''http://localhost:5173'' = Inr ()"
      "sleep_r (stdout_closed True) 2 = Inr ()"
      "screenshot_r (stdout_closed True) ''/home/jules/verification/initial_load.png'' = Inr ()"
      "is_visible_r (stdout_closed True) (ByText ''Welcome to Pinn'') = Inr True"
    by (simp_all add: stdout_closed_def served_def)
  have p: "print_r (served True) (if True then ''Onboarding visible'' else ''Not on onboarding?'')
      = Inr ()"
    by (simp add: served_def)
  have q: "print_r (stdout_closed True)
        (if True then ''Onboarding visible'' else ''Not on onboarding?'')
      = Inl (Raised ''ValueError: I/O operation on closed file'')"
    by (simp add: stdout_closed_def served_def)
  have x: "stdout (snd (verify_notes_load (served True) Page init)) = [''Onboarding visible'']"
      "fst (verify_notes_load (served True) Page init) = Inr ()"
    by (simp_all add: verify_ok [OF a p] init_def)
  have y: "stdout (snd (verify_notes_load (stdout_closed True) Page init)) = []"
      "fst (verify_notes_load (stdout_closed True) Page init)
       = Inl (Raised ''ValueError: I/O operation on closed file'')"
    by (simp_all add: verify_print_raises [OF b q] init_def)
  show ?thesis
    by (intro conjI) (rule a b x y)+
qed

text \<open>
  Claim C10, amended. Two runs of \<open>verify_notes_load\<close> in which the navigation, the wait
  and the screenshot return and the visibility query gives the same boolean make the same
  calls in the same order, with the same message handed to \<open>print\<close>, and write the same
  screenshot path: nothing else of the world steers the control flow. When the \<open>print\<close>
  call also ends the same way in both, the two runs are the same altogether: same result and
  same line printed.
\<close>

theorem same_answers_same_run:
  assumes "goto_r w1 ''http://localhost:5173'' = Inr ()" and "goto_r w2 ''http://localhost:5173'' = Inr ()"
    and "sleep_r w1 2 = Inr ()" and "sleep_r w2 2 = Inr ()"
    and "screenshot_r w1 ''/home/jules/verification/initial_load.png'' = Inr ()"
    and "screenshot_r w2 ''/home/jules/verification/initial_load.png'' = Inr ()"
    and "is_visible_r w1 (ByText ''Welcome to Pinn'') = Inr v"
    and "is_visible_r w2 (ByText ''Welcome to Pinn'') = Inr v"
  shows "trace (snd (verify_notes_load w1 pg1 s)) = trace (snd (verify_notes_load w2 pg2 s))
       \<and> trace (snd (verify_notes_load w1 pg1 s)) =
           trace s @ [Goto ''http://localhost:5173'', Sleep 2,
             Screenshot ''/home/jules/verification/initial_load.png'',
             IsVisible (ByText ''Welcome to Pinn''),
             Print (if v then ''Onboarding visible'' else ''Not on onboarding?'')]
       \<and> files (snd (verify_notes_load w1 pg1 s)) = files (snd (verify_notes_load w2 pg2 s))
       \<and> files (snd (verify_notes_load w1 pg1 s))
           = files s @ [''/home/jules/verification/initial_load.png'']
       \<and> (print_r w1 (if v then ''Onboarding visible'' else ''Not on onboarding?'')
            = print_r w2 (if v then ''Onboarding visible'' else ''Not on onboarding?'') \<longrightarrow>
           verify_notes_load w1 pg1 s = verify_notes_load w2 pg2 s)
       \<and> (print_r w1 (if v then ''Onboarding visible'' else ''Not on onboarding?'') = Inr ()
            \<and> print_r w2 (if v then ''Onboarding visible'' else ''Not on onboarding?'') = Inr () \<longrightarrow>
           stdout (snd (verify_notes_load w1 pg1 s))
             = stdout s @ [if v then ''Onboarding visible'' else ''Not on onboarding?'']
           \<and> stdout (snd (verify_notes_load w2 pg2 s))
             = stdout s @ [if v then ''Onboarding visible'' else ''Not on onboarding?''])"
proof -
  note r1 = verify_reaches_print [OF assms(1,3,5,7), of pg1 s]
  note r2 = verify_reaches_print [OF assms(2,4,6,8), of pg2 s]
  have t: "trace (snd (verify_notes_load w1 pg1 s)) = trace (snd (verify_notes_load w2 pg2 s))"
    using r1 r2 by simp
  have f: "files (snd (verify_notes_load w1 pg1 s)) = files (snd (verify_notes_load w2 pg2 s))"
    using r1 r2 by simp
  have e: "print_r w1 (if v then ''Onboarding visible'' else ''Not on onboarding?'')
            = print_r w2 (if v then ''Onboarding visible'' else ''Not on onboarding?'') \<longrightarrow>
           verify_notes_load w1 pg1 s = verify_notes_load w2 pg2 s"
  proof
    assume q: "print_r w1 (if v then ''Onboarding visible'' else ''Not on onboarding?'')
            = print_r w2 (if v then ''Onboarding visible'' else ''Not on onboarding?'')"
    show "verify_notes_load w1 pg1 s = verify_notes_load w2 pg2 s"
    proof (cases "print_r w2 (if v then ''Onboarding visible'' else ''Not on onboarding?'')")
      case (Inl x)
      then show ?thesis
        using q by (simp add: verify_print_raises [OF assms(1,3,5,7)]
            verify_print_raises [OF assms(2,4,6,8)])
    next
      case (Inr u)
      then show ?thesis
        using q by (simp add: verify_ok [OF assms(1,3,5,7)] verify_ok [OF assms(2,4,6,8)])
    qed
  qed
  have o: "print_r w1 (if v then ''Onboarding visible'' else ''Not on onboarding?'') = Inr ()
            \<and> print_r w2 (if v then ''Onboarding visible'' else ''Not on onboarding?'') = Inr () \<longrightarrow>
           stdout (snd (verify_notes_load w1 pg1 s))
             = stdout s @ [if v then ''Onboarding visible'' else ''Not on onboarding?'']
           \<and> stdout (snd (verify_notes_load w2 pg2 s))
             = stdout s @ [if v then ''Onboarding visible'' else ''Not on onboarding?'']"
    by (simp add: verify_ok [OF assms(1,3,5,7)] verify_ok [OF assms(2,4,6,8)])
  show ?thesis
    by (intro conjI) (rule t r1 [THEN conjunct1] f r1 [THEN conjunct2] e o)+
qed

theorem same_answers_same_run_witness:
  "goto_r (served True) ''http://localhost:5173'' = Inr ()
   \<and> goto_r (app_world ''config'' fresh_context) ''http://localhost:5173'' = Inr ()
   \<and> is_visible_r (served True) (ByText ''Welcome to Pinn'') = Inr True
   \<and> is_visible_r (app_world ''config'' fresh_context) (ByText ''Welcome to Pinn'') = Inr True
   \<and> served True \<noteq> app_world ''config'' fresh_context
   \<and> trace (snd (verify_notes_load (served True) Page init))
       = trace (snd (verify_notes_load (app_world ''config'' fresh_context) Page init))
   \<and> verify_notes_load (served True) Page init
       = verify_notes_load (app_world ''config'' fresh_context) Page init"
proof -
  have a: "goto_r (served True) ''http://localhost:5173'' = Inr ()" "sleep_r (served True) 2 = Inr ()"
      "screenshot_r (served True) ''/home/jules/verification/initial_load.png'' = Inr ()"
      "is_visible_r (served True) (ByText ''Welcome to Pinn'') = Inr True"
    by (simp_all add: served_def)
  have b: "goto_r (app_world ''config'' fresh_context) ''http://localhost:5173'' = Inr ()"
      "sleep_r (app_world ''config'' fresh_context) 2 = Inr ()"
      "screenshot_r (app_world ''config'' fresh_context) ''/home/jules/verification/initial_load.png'' = Inr ()"
      "is_visible_r (app_world ''config'' fresh_context) (ByText ''Welcome to Pinn'') = Inr True"
    by (simp_all add: app_world_def served_def app_is_visible_def onboarding_shown_def fresh_context_def)
  have p: "print_r (served True) (if True then ''Onboarding visible'' else ''Not on onboarding?'')
      = print_r (app_world ''config'' fresh_context)
          (if True then ''Onboarding visible'' else ''Not on onboarding?'')"
    by (simp add: app_world_def served_def)
  have d: "served True \<noteq> app_world ''config'' fresh_context"
  proof
    assume "served True = app_world ''config'' fresh_context"
    then have "is_visible_r (served True) (ByText ''x'') = is_visible_r (app_world ''config'' fresh_context) (ByText ''x'')"
      by simp
    then show False
      by (simp add: app_world_def served_def app_is_visible_def)
  qed
  note n = same_answers_same_run [OF a(1) b(1) a(2) b(2) a(3) b(3) a(4) b(4),
      where ?pg1.0 = Page and ?pg2.0 = Page and s = init]
  have e: "verify_notes_load (served True) Page init
       = verify_notes_load (app_world ''config'' fresh_context) Page init"
    by (rule n [THEN conjunct2, THEN conjunct2, THEN conjunct2, THEN conjunct2, THEN conjunct1,
          THEN mp, OF p])
  show ?thesis
    by (intro conjI) (rule a b d n [THEN conjunct1] e)+
qed

end
